theory Spec2Isabelle
  imports
    Main
    "HOL-Library.AList"
    "HOL-Library.Char_ord"
    "HOL-Library.List_Lexorder"
    "HOL-Library.Sublist"
begin

section \<open>Python values and the exceptions of their operations\<close>

text \<open>
  The ledger document of \<^verbatim>\<open>project_mapping.py\<close> is an untyped Python value: what
  \<^verbatim>\<open>yaml.safe_load\<close> returned, later mutated in place. It is modelled by a universal
  datatype of the JSON-like values (None, bool, int, str, list, dict with string keys; a dict
  is an association list in insertion order, without repeated keys). Floats, dates, sets and
  non-string keys, which a hand-written YAML file can also denote, are outside the model.
  Every operation that can raise returns a sum, \<open>Inl\<close> the exception.
\<close>

datatype pyval =
    PNone
  | PBool bool
  | PInt int
  | PStr string
  | PList "pyval list"
  | PDict "(string \<times> pyval) list"

datatype py_error =
    TypeError | KeyError | AttributeError | OSError | YAMLError | RuntimeError

text \<open>Truth value of an object, as \<^verbatim>\<open>if x:\<close> and \<^verbatim>\<open>x or y\<close> test it.\<close>

fun truthy :: "pyval \<Rightarrow> bool" where
  "truthy PNone = False"
| "truthy (PBool b) = b"
| "truthy (PInt i) = (i \<noteq> 0)"
| "truthy (PStr s) = (s \<noteq> [])"
| "truthy (PList xs) = (xs \<noteq> [])"
| "truthy (PDict d) = (d \<noteq> [])"

text \<open>Substring test, \<^verbatim>\<open>a in b\<close> for two strings.\<close>

fun is_substring :: "string \<Rightarrow> string \<Rightarrow> bool" where
  "is_substring a [] = (a = [])"
| "is_substring a (c # cs) = (prefix a (c # cs) \<or> is_substring a cs)"

text \<open>\<^verbatim>\<open>k in x\<close> for a string \<open>k\<close>: key membership in a dict, element membership in a
  list, substring test in a string, TypeError on the objects that are not containers.\<close>

fun py_contains :: "string \<Rightarrow> pyval \<Rightarrow> py_error + bool" where
  "py_contains k (PDict d) = Inr (k \<in> set (map fst d))"
| "py_contains k (PList xs) = Inr (PStr k \<in> set xs)"
| "py_contains k (PStr s) = Inr (is_substring k s)"
| "py_contains k PNone = Inl TypeError"
| "py_contains k (PBool b) = Inl TypeError"
| "py_contains k (PInt i) = Inl TypeError"

text \<open>\<^verbatim>\<open>x[k]\<close> for a string \<open>k\<close>: KeyError on a dict without the key, TypeError on
  everything else (a list or a string wants an integer index).\<close>

fun py_getitem :: "pyval \<Rightarrow> string \<Rightarrow> py_error + pyval" where
  "py_getitem (PDict d) k = (case map_of d k of None \<Rightarrow> Inl KeyError | Some v \<Rightarrow> Inr v)"
| "py_getitem PNone k = Inl TypeError"
| "py_getitem (PBool b) k = Inl TypeError"
| "py_getitem (PInt i) k = Inl TypeError"
| "py_getitem (PStr s) k = Inl TypeError"
| "py_getitem (PList xs) k = Inl TypeError"

text \<open>\<^verbatim>\<open>x[k] = v\<close>: a dict keeps the position of a key it has and appends a new one.\<close>

fun py_setitem :: "pyval \<Rightarrow> string \<Rightarrow> pyval \<Rightarrow> py_error + pyval" where
  "py_setitem (PDict d) k v = Inr (PDict (AList.update k v d))"
| "py_setitem PNone k v = Inl TypeError"
| "py_setitem (PBool b) k v = Inl TypeError"
| "py_setitem (PInt i) k v = Inl TypeError"
| "py_setitem (PStr s) k v = Inl TypeError"
| "py_setitem (PList xs) k v = Inl TypeError"


text \<open>\<^verbatim>\<open>x.get(k, default)\<close>, \<^verbatim>\<open>x.items()\<close>: methods of dict only, AttributeError on
  any other object.\<close>

fun py_get :: "pyval \<Rightarrow> string \<Rightarrow> pyval \<Rightarrow> py_error + pyval" where
  "py_get (PDict d) k dflt = Inr (case map_of d k of None \<Rightarrow> dflt | Some v \<Rightarrow> v)"
| "py_get PNone k dflt = Inl AttributeError"
| "py_get (PBool b) k dflt = Inl AttributeError"
| "py_get (PInt i) k dflt = Inl AttributeError"
| "py_get (PStr s) k dflt = Inl AttributeError"
| "py_get (PList xs) k dflt = Inl AttributeError"

fun py_items :: "pyval \<Rightarrow> py_error + (string \<times> pyval) list" where
  "py_items (PDict d) = Inr d"
| "py_items PNone = Inl AttributeError"
| "py_items (PBool b) = Inl AttributeError"
| "py_items (PInt i) = Inl AttributeError"
| "py_items (PStr s) = Inl AttributeError"
| "py_items (PList xs) = Inl AttributeError"




section \<open>The backing file\<close>

text \<open>
  The file \<^verbatim>\<open>project_mapping.yaml\<close> under the templates directory. PyYAML is not part of
  the repository: a YAML text is represented by the value it denotes, so \<^verbatim>\<open>yaml.dump\<close>
  writes \<open>Yaml v\<close> and \<^verbatim>\<open>yaml.safe_load\<close> reads \<open>v\<close> back; \<open>Malformed\<close> is any
  text that \<^verbatim>\<open>safe_load\<close> rejects, \<open>Unreadable\<close> a file that \<^verbatim>\<open>open\<close> cannot read.
  \<open>parent_dir\<close> says whether the directory of the file exists, \<open>writable\<close> whether
  the file system lets the program create directories and write the file.
\<close>

datatype file_state = Missing | Unreadable | Malformed | Yaml pyval

record fs =
  parent_dir :: bool
  writable :: bool
  content :: file_state

text \<open>What \<^verbatim>\<open>print\<close> wrote: the warning of a failed load carries the exception.\<close>

datatype printed = Warning py_error

definition empty_ledger :: pyval where
  "empty_ledger = PDict [(''projects'', PDict [])]"

text \<open>\<^verbatim>\<open>open(path, "r")\<close> followed by \<^verbatim>\<open>yaml.safe_load(f)\<close>.\<close>

fun safe_load_file :: "file_state \<Rightarrow> py_error + pyval" where
  "safe_load_file Missing = Inl OSError"
| "safe_load_file Unreadable = Inl OSError"
| "safe_load_file Malformed = Inl YAMLError"
| "safe_load_file (Yaml v) = Inr v"

text \<open>The body of the \<^verbatim>\<open>try\<close> block of \<^verbatim>\<open>_load_mapping\<close>.\<close>

definition load_mapping_try :: "fs \<Rightarrow> py_error + pyval" where
  "load_mapping_try f =
     (case safe_load_file (content f) of
        Inl e \<Rightarrow> Inl e
      | Inr loaded \<Rightarrow>
          (let data = (if truthy loaded then loaded else PDict []) in
           case py_contains ''projects'' data of
             Inl e \<Rightarrow> Inl e
           | Inr has \<Rightarrow>
               if \<not> has then py_setitem data ''projects'' (PDict []) else Inr data))"

text \<open>\<^verbatim>\<open>ProjectMapping._load_mapping\<close>: the loaded document and what was printed.\<close>

definition load_mapping :: "fs \<Rightarrow> pyval \<times> printed list" where
  "load_mapping f =
     (if content f = Missing then (empty_ledger, [])
      else case load_mapping_try f of
             Inl e \<Rightarrow> (empty_ledger, [Warning e])
           | Inr data \<Rightarrow> (data, []))"


section \<open>Paths and the environment of the process\<close>

text \<open>
  A \<^verbatim>\<open>pathlib.Path\<close> on POSIX: whether it has the root, and its components. The
  standard library and the operating system are not part of the repository; what the code
  asks of them is a field of the environment: the home directory of the current user
  (\<^verbatim>\<open>Path.home()\<close>, taken to be known), the working directory, the resolution of an
  absolute path by the operating system (symbolic links and \<^verbatim>\<open>..\<close>), the test that
  a path exists, the home directories of the other users, and of \<^verbatim>\<open>datetime\<close> the
  functions \<^verbatim>\<open>isoformat\<close>, \<^verbatim>\<open>fromisoformat\<close> (\<open>None\<close> where it raises ValueError)
  and \<^verbatim>\<open>timestamp\<close>. A timestamp is counted in microseconds, as an exact integer: the
  rounding of the floating-point seconds of Python is not modelled.
\<close>

datatype path = Path (is_abs: bool) (parts: "string list")

record 'dt env =
  home_dir :: "string list"
  cwd :: "string list"
  os_realpath :: "string list \<Rightarrow> string list"
  os_exists :: "path \<Rightarrow> bool"
  user_home :: "string \<Rightarrow> string list option"
  isoformat :: "'dt \<Rightarrow> string"
  fromisoformat :: "string \<Rightarrow> 'dt option"
  timestamp :: "'dt \<Rightarrow> int"

text \<open>\<^verbatim>\<open>str(path)\<close>.\<close>

fun join_parts :: "string list \<Rightarrow> string" where
  "join_parts [] = []"
| "join_parts [p] = p"
| "join_parts (p # q # ps) = p @ ''/'' @ join_parts (q # ps)"

fun path_str :: "path \<Rightarrow> string" where
  "path_str (Path True ps) = CHR ''/'' # join_parts ps"
| "path_str (Path False ps) = (if ps = [] then ''.'' else join_parts ps)"

text \<open>\<^verbatim>\<open>Path(s)\<close> for a string: the text is cut at the slashes, empty components and
  \<^verbatim>\<open>.\<close> are dropped (the root \<^verbatim>\<open>//\<close> of POSIX is read as \<^verbatim>\<open>/\<close>).\<close>

fun split_slash :: "string \<Rightarrow> string list" where
  "split_slash [] = [[]]"
| "split_slash (c # cs) =
     (if c = CHR ''/'' then [] # split_slash cs
      else case split_slash cs of
             [] \<Rightarrow> [[c]]
           | w # ws \<Rightarrow> (c # w) # ws)"

definition path_of_str :: "string \<Rightarrow> path" where
  "path_of_str s =
     Path (take 1 s = ''/'') (filter (\<lambda>p. p \<noteq> [] \<and> p \<noteq> ''.'') (split_slash s))"

text \<open>\<^verbatim>\<open>path.resolve()\<close>: a relative path is taken from the working directory, then the
  operating system resolves the absolute path.\<close>

definition resolve :: "'dt env \<Rightarrow> path \<Rightarrow> path" where
  "resolve e p =
     Path True (os_realpath e (if is_abs p then parts p else cwd e @ parts p))"

definition is_relative_to :: "path \<Rightarrow> path \<Rightarrow> bool" where
  "is_relative_to p other = (is_abs p = is_abs other \<and> prefix (parts other) (parts p))"

text \<open>\<^verbatim>\<open>p.relative_to(other)\<close>, which raises ValueError unless \<open>is_relative_to p other\<close>.\<close>

definition relative_to :: "path \<Rightarrow> path \<Rightarrow> path option" where
  "relative_to p other =
     (if is_relative_to p other then Some (Path False (drop (length (parts other)) (parts p)))
      else None)"

text \<open>\<^verbatim>\<open>path.expanduser()\<close>: a relative path whose first component starts with
  \<^verbatim>\<open>~\<close> is taken from a home directory; RuntimeError when the user is unknown.\<close>

fun expanduser :: "'dt env \<Rightarrow> path \<Rightarrow> py_error + path" where
  "expanduser e (Path False (first # rest)) =
     (if take 1 first = ''~'' then
        (if first = ''~'' then Inr (Path True (home_dir e @ rest))
         else case user_home e (drop 1 first) of
                None \<Rightarrow> Inl RuntimeError
              | Some h \<Rightarrow> Inr (Path True (h @ rest)))
      else Inr (Path False (first # rest)))"
| "expanduser e p = Inr p"

text \<open>\<^verbatim>\<open>ProjectMapping._normalize_project_path\<close>. With both paths absolute and the home
  directory known, the \<^verbatim>\<open>except (ValueError, OSError)\<close> branch is not taken.\<close>

definition normalize_project_path :: "'dt env \<Rightarrow> path \<Rightarrow> string" where
  "normalize_project_path e project_path =
     (let abs_path = resolve e project_path;
          home = Path True (home_dir e)
      in case (if is_relative_to abs_path home then relative_to abs_path home else None) of
           Some rel \<Rightarrow> path_str (Path False (''~'' # parts rel))
         | None \<Rightarrow> path_str abs_path)"


section \<open>The operations of the ledger\<close>

text \<open>
  The state of a \<^verbatim>\<open>ProjectMapping\<close> is its \<^verbatim>\<open>mapping_data\<close>. An operation that
  mutates it returns the new document; a mutation of the nested \<^verbatim>\<open>projects\<close> dict is
  written back under its key. \<open>now\<close> is what \<^verbatim>\<open>datetime.now()\<close> returned.
\<close>

definition new_entry :: "'dt env \<Rightarrow> 'dt \<Rightarrow> string list \<Rightarrow> pyval" where
  "new_entry e now environment_sets =
     PDict [(''environment_sets'', PList (map PStr environment_sets)),
            (''last_synced'', PStr (isoformat e now))]"

definition add_project :: "'dt env \<Rightarrow> 'dt \<Rightarrow> pyval \<Rightarrow> path \<Rightarrow> string list \<Rightarrow> py_error + pyval" where
  "add_project e now mapping_data project_path environment_sets =
     (let normalized_path = normalize_project_path e project_path in
      case py_getitem mapping_data ''projects'' of
        Inl err \<Rightarrow> Inl err
      | Inr projects \<Rightarrow>
          (case py_setitem projects normalized_path (new_entry e now environment_sets) of
             Inl err \<Rightarrow> Inl err
           | Inr projects' \<Rightarrow> py_setitem mapping_data ''projects'' projects'))"


text \<open>\<^verbatim>\<open>get_project_info\<close>: \<open>PNone\<close> is Python's \<^verbatim>\<open>None\<close>, "not found".\<close>

definition get_project_info :: "'dt env \<Rightarrow> pyval \<Rightarrow> path \<Rightarrow> py_error + pyval" where
  "get_project_info e mapping_data project_path =
     (let normalized_path = normalize_project_path e project_path in
      case py_getitem mapping_data ''projects'' of
        Inl err \<Rightarrow> Inl err
      | Inr projects \<Rightarrow> py_get projects normalized_path PNone)"













text \<open>\<^verbatim>\<open>save_mapping\<close>: \<^verbatim>\<open>mkdir(parents=True, exist_ok=True)\<close>, the entries sorted by
  key (the keys of a dict differ, so the order of the pairs is the order of their keys),
  then the document written over the file.\<close>

definition save_mapping :: "pyval \<Rightarrow> fs \<Rightarrow> py_error + (pyval \<times> fs)" where
  "save_mapping mapping_data f =
     (if \<not> parent_dir f \<and> \<not> writable f then Inl OSError
      else
        (case py_getitem mapping_data ''projects'' of
           Inl err \<Rightarrow> Inl err
         | Inr projects \<Rightarrow>
             (case py_items projects of
                Inl err \<Rightarrow> Inl err
              | Inr items \<Rightarrow>
                  (case py_setitem mapping_data ''projects'' (PDict (sort_key fst items)) of
                     Inl err \<Rightarrow> Inl err
                   | Inr mapping_data' \<Rightarrow>
                       if \<not> writable f then Inl OSError
                       else Inr (mapping_data',
                                 f\<lparr>parent_dir := True, content := Yaml mapping_data'\<rparr>)))))"


text \<open>A run of the mutating operations on one \<^verbatim>\<open>ProjectMapping\<close> object; an exception
  ends the run.\<close>

datatype 'dt operation =
    Add 'dt path "string list"
  | Remove path
  | Touch 'dt path
  | Cleanup

fun deletes :: "'dt operation \<Rightarrow> bool" where
  "deletes (Remove p) = True"
| "deletes Cleanup = True"
| "deletes (Add now p sets) = False"
| "deletes (Touch now p) = False"




section \<open>The vocabulary of the specification\<close>









text \<open>\<^verbatim>\<open>usage_counts\<close> in the words of the specification: the number of projects whose
  set contains a name; and the number of times the name is written in the lists.\<close>









section \<open>A concrete environment\<close>

text \<open>
  An instance of the environment for the examples: a file system without symbolic links
  (resolution removes \<^verbatim>\<open>..\<close> and \<^verbatim>\<open>.\<close> textually), and naive dates in the proleptic
  Gregorian calendar, written \<^verbatim>\<open>YYYY-MM-DDTHH:MM:SS[.ffffff]\<close> as \<^verbatim>\<open>isoformat\<close> writes
  them and counted from 1970-01-01 in a zone without offset.
\<close>

fun lexical_realpath :: "string list \<Rightarrow> string list \<Rightarrow> string list" where
  "lexical_realpath seen [] = rev seen"
| "lexical_realpath seen (p # ps) =
     (if p = ''..'' then lexical_realpath (tl seen) ps
      else if p = ''.'' \<or> p = [] then lexical_realpath seen ps
      else lexical_realpath (p # seen) ps)"

datatype datetime = Datetime int int int int int int int

definition digit_char :: "int \<Rightarrow> char" where
  "digit_char d = ''0123456789'' ! nat d"

fun pad :: "nat \<Rightarrow> int \<Rightarrow> string" where
  "pad 0 n = []"
| "pad (Suc w) n = pad w (n div 10) @ [digit_char (n mod 10)]"

fun iso_format :: "datetime \<Rightarrow> string" where
  "iso_format (Datetime y mo d h mi s us) =
     pad 4 y @ ''-'' @ pad 2 mo @ ''-'' @ pad 2 d @ ''T'' @
     pad 2 h @ '':'' @ pad 2 mi @ '':'' @ pad 2 s @
     (if us = 0 then [] else ''.'' @ pad 6 us)"

definition digit_val :: "char \<Rightarrow> int option" where
  "digit_val c =
     (let n = (of_char c :: int) in if 48 \<le> n \<and> n \<le> 57 then Some (n - 48) else None)"

fun read_nat :: "int \<Rightarrow> string \<Rightarrow> int option" where
  "read_nat acc [] = Some acc"
| "read_nat acc (c # cs) =
     (case digit_val c of None \<Rightarrow> None | Some d \<Rightarrow> read_nat (10 * acc + d) cs)"

definition iso_shape :: "string \<Rightarrow> bool" where
  "iso_shape s =
     ((length s = 19 \<or> (length s = 26 \<and> s ! 19 = CHR ''.'')) \<and>
      s ! 4 = CHR ''-'' \<and> s ! 7 = CHR ''-'' \<and> s ! 10 = CHR ''T'' \<and>
      s ! 13 = CHR '':'' \<and> s ! 16 = CHR '':'')"

definition from_iso :: "string \<Rightarrow> datetime option" where
  "from_iso s =
     (if iso_shape s then
        (case (read_nat 0 (take 4 s), read_nat 0 (take 2 (drop 5 s)),
               read_nat 0 (take 2 (drop 8 s)), read_nat 0 (take 2 (drop 11 s)),
               read_nat 0 (take 2 (drop 14 s)), read_nat 0 (take 2 (drop 17 s)),
               read_nat 0 (drop 20 s)) of
           (Some y, Some mo, Some d, Some h, Some mi, Some sec, Some us) \<Rightarrow>
             if 1 \<le> y \<and> 1 \<le> mo \<and> mo \<le> 12 \<and> 1 \<le> d \<and> d \<le> 31 \<and> h < 24 \<and> mi < 60 \<and> sec < 60
             then Some (Datetime y mo d h mi sec us) else None
         | _ \<Rightarrow> None)
      else None)"

definition days_from_civil :: "int \<Rightarrow> int \<Rightarrow> int \<Rightarrow> int" where
  "days_from_civil y m d =
     (let y' = (if m \<le> 2 then y - 1 else y);
          era = y' div 400;
          yoe = y' - era * 400;
          doy = (153 * (if m > 2 then m - 3 else m + 9) + 2) div 5 + d - 1;
          doe = yoe * 365 + yoe div 4 - yoe div 100 + doy
      in era * 146097 + doe - 719468)"

fun epoch_microseconds :: "datetime \<Rightarrow> int" where
  "epoch_microseconds (Datetime y mo d h mi s us) =
     (((days_from_civil y mo d * 24 + h) * 60 + mi) * 60 + s) * 1000000 + us"

definition example_env :: "datetime env" where
  "example_env =
     \<lparr>home_dir = [''home'', ''dev''],
      cwd = [''home'', ''dev'', ''work''],
      os_realpath = lexical_realpath [],
      os_exists = (\<lambda>p. p \<in> set [Path True [''home'', ''dev'', ''site''], Path True [''tmp'', ''kept'']]),
      user_home = map_of [(''ops'', [''home'', ''ops''])],
      isoformat = iso_format,
      fromisoformat = from_iso,
      timestamp = epoch_microseconds\<rparr>"


text \<open>A ledger with three projects (one never synchronized), a file system on which the
  templates directory does not exist yet, and a reading of the clock.\<close>

definition example_projects :: "(string \<times> pyval) list" where
  "example_projects =
     [(''~/proj'', PDict [(''environment_sets'', PList [PStr ''python_dev'', PStr ''docs'']),
                          (''last_synced'', PStr ''2024-03-08T12:00:00'')]),
      (''/srv/app'', PDict [(''environment_sets'', PList [PStr ''docs'']),
                            (''last_synced'', PStr ''2024-03-10T00:00:00'')]),
      (''/opt/tool'', PDict [(''environment_sets'', PList [PStr ''python_dev''])])]"

definition example_ledger :: pyval where
  "example_ledger = PDict [(''projects'', PDict example_projects)]"

definition example_fs :: fs where
  "example_fs = \<lparr>parent_dir = False, writable = True, content = Missing\<rparr>"

definition example_now :: datetime where
  "example_now = Datetime 2024 3 10 12 0 0 0"










text \<open>A backing file in which the same directory was written twice by hand, once with a
  trailing slash; and a run of operations on a new ledger.\<close>

definition twice_written_fs :: fs where
  "twice_written_fs =
     \<lparr>parent_dir = True, writable = True,
      content = Yaml (PDict [(''projects'', PDict
        [(''/srv/app'', PDict [(''environment_sets'', PList [PStr ''docs''])]),
         (''/srv/app/'', PDict [(''environment_sets'', PList [PStr ''python_dev''])])])])\<rparr>"

definition example_run :: "datetime operation list" where
  "example_run =
     [Add example_now (Path False [''api'']) [''docs''],
      Add example_now (Path True [''home'', ''dev'', ''work'', ''api'']) [''docs'', ''python_dev''],
      Add example_now (Path True [''tmp'', ''kept'']) [''docs''],
      Touch example_now (Path False [''api'']),
      Remove (Path True [''srv'', ''app'']),
      Cleanup]"


section \<open>Properties\<close>

subsection \<open>Dicts as association lists\<close>

lemma getitem_dict:
  "py_getitem st k = Inr v \<longleftrightarrow> (\<exists>d. st = PDict d \<and> map_of d k = Some v)"
  by (cases st) (auto split: option.splits)

lemma setitem_projects:
  assumes "py_getitem st k = Inr v"
  shows "\<exists>st'. py_setitem st k v' = Inr st' \<and> py_getitem st' k = Inr v'"
  using assms by (cases st) (auto simp: update_conv' split: option.splits)


subsection \<open>Loading\<close>

lemma load_mapping_missing:
  "content f = Missing \<Longrightarrow> load_mapping f = (empty_ledger, [])"
  by (simp add: load_mapping_def)

lemma load_mapping_unreadable:
  "content f = Unreadable \<or> content f = Malformed \<Longrightarrow>
   \<exists>err. load_mapping f = (empty_ledger, [Warning err])"
  by (auto simp add: load_mapping_def load_mapping_try_def)

lemma load_mapping_scalar:
  "content f = Yaml (PInt i) \<Longrightarrow> i \<noteq> 0 \<Longrightarrow> load_mapping f = (empty_ledger, [Warning TypeError])"
  by (simp add: load_mapping_def load_mapping_try_def)

text \<open>
  C3 (the code departs from the claim). The claim: loading never raises, a missing file
  gives the empty ledger, and a file that is corrupt, unreadable or whose YAML denotes a
  value that is not a mapping gives the empty ledger after a warning. The first two parts
  hold (\<open>load_mapping\<close> is total, \<open>load_mapping_missing\<close>,
  \<open>load_mapping_unreadable\<close>). The last part fails for a YAML list that has the element
  \<^verbatim>\<open>projects\<close>: the test \<^verbatim>\<open>"projects" not in data\<close> is false on it, so the list itself
  is returned as the document, and nothing is printed.
\<close>

theorem load_mapping_returns_list_document:
  "load_mapping \<lparr>parent_dir = True, writable = True,
                  content = Yaml (PList [PStr ''projects''])\<rparr>
     = (PList [PStr ''projects''], [])"
  by (simp add: load_mapping_def load_mapping_try_def)

subsection \<open>Normalization of project paths\<close>

lemma add_project_result:
  assumes "py_getitem st ''projects'' = Inr (PDict ps)"
  shows "\<exists>st1. add_project e now st p sets = Inr st1 \<and>
           py_getitem st1 ''projects'' =
             Inr (PDict (AList.update (normalize_project_path e p) (new_entry e now sets) ps))"
  using assms setitem_projects[OF assms]
  by (simp add: add_project_def Let_def)

lemma add_project_dict:
  assumes "add_project e now st p sets = Inr st1"
  shows "\<exists>ps. py_getitem st ''projects'' = Inr (PDict ps)"
  using assms
  apply (simp add: add_project_def Let_def split: sum.splits)
  subgoal for projects by (cases projects) auto
  done

lemma get_project_info_lookup:
  assumes "py_getitem st ''projects'' = Inr (PDict ps)"
  shows "get_project_info e st p =
           Inr (case map_of ps (normalize_project_path e p) of None \<Rightarrow> PNone | Some v \<Rightarrow> v)"
  using assms by (simp add: get_project_info_def Let_def)

lemma prefix_join_tilde: "prefix ''~'' (join_parts (''~'' # rel))"
  by (cases rel) simp_all

lemma normalize_under_home:
  "is_relative_to (resolve e p) (Path True (home_dir e)) \<Longrightarrow>
   prefix ''~'' (normalize_project_path e p)"
  by (simp add: normalize_project_path_def Let_def relative_to_def prefix_join_tilde)

lemma normalize_relative_absolute:
  "normalize_project_path e (Path False ps) = normalize_project_path e (Path True (cwd e @ ps))"
  by (simp add: normalize_project_path_def resolve_def)

lemma normalize_resolved:
  "os_realpath e (parts (resolve e p)) = parts (resolve e p) \<Longrightarrow>
   normalize_project_path e (resolve e p) = normalize_project_path e p"
  by (simp add: normalize_project_path_def resolve_def)

text \<open>
  C1 (amended). Normalization is a function of the environment and the path. Whenever the
  resolved path lies under the home directory or equals it, the key begins with
  \<^verbatim>\<open>~\<close>. The relative form of a path and its absolute form (the working directory
  followed by it) have the same key, and so has the resolved form when the operating
  system resolves a resolved path to itself; hence a lookup with the absolute form finds
  the entry added under the relative form. A path written with the home alias is not
  among these forms: normalization does not expand \<^verbatim>\<open>~\<close>.
\<close>

theorem normalize_project_path_forms:
  "(is_relative_to (resolve e p) (Path True (home_dir e)) \<longrightarrow>
      prefix ''~'' (normalize_project_path e p)) \<and>
   normalize_project_path e (Path False ps) = normalize_project_path e (Path True (cwd e @ ps)) \<and>
   (os_realpath e (parts (resolve e p)) = parts (resolve e p) \<longrightarrow>
      normalize_project_path e (resolve e p) = normalize_project_path e p) \<and>
   (\<forall>st1. add_project e now st (Path False ps) sets = Inr st1 \<longrightarrow>
      get_project_info e st1 (Path True (cwd e @ ps)) = Inr (new_entry e now sets))"
proof (intro conjI allI impI)
  assume "is_relative_to (resolve e p) (Path True (home_dir e))"
  then show "prefix ''~'' (normalize_project_path e p)" by (rule normalize_under_home)
next
  show "normalize_project_path e (Path False ps) = normalize_project_path e (Path True (cwd e @ ps))"
    by (rule normalize_relative_absolute)
next
  assume "os_realpath e (parts (resolve e p)) = parts (resolve e p)"
  then show "normalize_project_path e (resolve e p) = normalize_project_path e p"
    by (rule normalize_resolved)
next
  fix st1
  assume added: "add_project e now st (Path False ps) sets = Inr st1"
  then obtain d where d: "py_getitem st ''projects'' = Inr (PDict d)"
    using add_project_dict[OF added] by blast
  from add_project_result[OF d, of e now "Path False ps" sets] added
  have "py_getitem st1 ''projects'' =
          Inr (PDict (AList.update (normalize_project_path e (Path False ps)) (new_entry e now sets) d))"
    by auto
  from get_project_info_lookup[OF this, of e "Path True (cwd e @ ps)"]
  show "get_project_info e st1 (Path True (cwd e @ ps)) = Inr (new_entry e now sets)"
    by (simp add: update_conv' normalize_relative_absolute)
qed

theorem normalize_project_path_forms_witness:
  "is_relative_to (resolve example_env (Path True [''home'', ''dev'', ''proj'']))
     (Path True (home_dir example_env)) \<and>
   prefix ''~'' (normalize_project_path example_env (Path True [''home'', ''dev'', ''proj''])) \<and>
   os_realpath example_env (parts (resolve example_env (Path True [''home'', ''dev'', ''proj'']))) =
     parts (resolve example_env (Path True [''home'', ''dev'', ''proj''])) \<and>
   normalize_project_path example_env (resolve example_env (Path True [''home'', ''dev'', ''proj''])) =
     normalize_project_path example_env (Path True [''home'', ''dev'', ''proj'']) \<and>
   (\<exists>st1. add_project example_env (Datetime 2024 3 10 12 0 0 0) empty_ledger
            (Path False [''proj'']) [''python_dev''] = Inr st1 \<and>
      get_project_info example_env st1 (Path True (cwd example_env @ [''proj''])) =
        Inr (new_entry example_env (Datetime 2024 3 10 12 0 0 0) [''python_dev'']))"
proof -
  let ?p = "Path True [''home'', ''dev'', ''proj'']"
  let ?now = "Datetime 2024 3 10 12 0 0 0"
  note inst = normalize_project_path_forms
    [of example_env ?p "[''proj'']" ?now empty_ledger "[''python_dev'']"]
  have h1: "is_relative_to (resolve example_env ?p) (Path True (home_dir example_env))"
    by code_simp
  have h2: "os_realpath example_env (parts (resolve example_env ?p)) = parts (resolve example_env ?p)"
    by code_simp
  obtain st1 where h3:
    "add_project example_env ?now empty_ledger (Path False [''proj'']) [''python_dev''] = Inr st1"
    using add_project_result
      [of empty_ledger "[]" example_env ?now "Path False [''proj'']" "[''python_dev'']"]
    by (auto simp: empty_ledger_def)
  from inst h1 h2 h3 show ?thesis by blast
qed

text \<open>
  C1 as stated fails on the home-alias form. With the home directory \<^verbatim>\<open>/home/dev\<close> and
  the working directory \<^verbatim>\<open>/home/dev/work\<close>, the path \<^verbatim>\<open>~/proj\<close> denotes
  \<^verbatim>\<open>/home/dev/proj\<close>, whose key is \<^verbatim>\<open>~/proj\<close>; but the key of \<^verbatim>\<open>~/proj\<close> itself is
  \<^verbatim>\<open>~/work/~/proj\<close>, and a lookup with it after the entry was added under the absolute
  form finds nothing.
\<close>

theorem normalize_home_alias_counterexample:
  "expanduser example_env (path_of_str ''~/proj'') = Inr (Path True [''home'', ''dev'', ''proj'']) \<and>
   normalize_project_path example_env (Path True [''home'', ''dev'', ''proj'']) = ''~/proj'' \<and>
   normalize_project_path example_env (path_of_str ''~/proj'') = ''~/work/~/proj'' \<and>
   (case add_project example_env (Datetime 2024 3 10 12 0 0 0) empty_ledger
           (Path True [''home'', ''dev'', ''proj'']) [''python_dev''] of
      Inl err \<Rightarrow> Inl err
    | Inr st1 \<Rightarrow> get_project_info example_env st1 (path_of_str ''~/proj'')) = Inr PNone"
  by code_simp

subsection \<open>Saving and loading\<close>

lemma update_nonempty: "AList.update k v d \<noteq> []"
  by (cases d) auto

lemma update_has_key: "k \<in> fst ` set (AList.update k v d)"
  by (induction d) auto

lemma map_of_filter_key: "map_of (filter (\<lambda>y. fst y = k) xs) k = map_of xs k"
  by (induction xs) auto

lemma map_of_sort_key: "map_of (sort_key fst ps) = map_of ps"
proof
  fix k
  have "map_of (sort_key fst ps) k = map_of (filter (\<lambda>y. fst y = k) (sort_key fst ps)) k"
    by (simp add: map_of_filter_key)
  also have "\<dots> = map_of (filter (\<lambda>y. fst y = k) ps) k"
    by (simp add: sort_key_stable)
  finally show "map_of (sort_key fst ps) k = map_of ps k"
    by (simp add: map_of_filter_key)
qed

lemma save_mapping_result:
  assumes "py_getitem st ''projects'' = Inr (PDict ps)" and "writable f"
  shows "\<exists>st'. save_mapping st f = Inr (st', f\<lparr>parent_dir := True, content := Yaml st'\<rparr>) \<and>
           py_getitem st' ''projects'' = Inr (PDict (sort_key fst ps))"
  using assms setitem_projects[OF assms(1), of "PDict (sort_key fst ps)"]
  by (auto simp add: save_mapping_def)

lemma save_mapping_dict:
  assumes "save_mapping st f = Inr (st', f')"
  shows "writable f \<and> (\<exists>ps. py_getitem st ''projects'' = Inr (PDict ps))"
  using assms
  apply (simp add: save_mapping_def split: if_splits sum.splits)
  subgoal for projects by (cases projects) auto
  done

text \<open>
  C7. Saving a document whose \<^verbatim>\<open>projects\<close> is a mapping succeeds on a writable file
  system, and whenever \<^verbatim>\<open>save_mapping\<close> completes, the directory of the backing file
  exists, the file holds the document that is now in memory, and that document has the key
  \<^verbatim>\<open>projects\<close> (also with no entries) with the same entries as before, sorted by
  ascending path.
\<close>

theorem save_mapping_sorted:
  "(py_getitem st ''projects'' = Inr (PDict ps) \<and> writable f \<longrightarrow>
      (\<exists>st' f'. save_mapping st f = Inr (st', f'))) \<and>
   (save_mapping st f = Inr (st', f') \<longrightarrow>
      parent_dir f' \<and> content f' = Yaml st' \<and>
      (\<exists>old new. py_getitem st ''projects'' = Inr (PDict old) \<and>
         py_getitem st' ''projects'' = Inr (PDict new) \<and>
         new = sort_key fst old \<and> sorted (map fst new) \<and> set new = set old \<and> length new = length old))"
proof (rule conjI; rule impI)
  assume "py_getitem st ''projects'' = Inr (PDict ps) \<and> writable f"
  then show "\<exists>st' f'. save_mapping st f = Inr (st', f')"
    using save_mapping_result[of st ps f] by blast
next
  assume saved: "save_mapping st f = Inr (st', f')"
  then obtain old where old: "py_getitem st ''projects'' = Inr (PDict old)" and w: "writable f"
    using save_mapping_dict by blast
  from save_mapping_result[OF old w] saved
  have "f' = f\<lparr>parent_dir := True, content := Yaml st'\<rparr>"
    and "py_getitem st' ''projects'' = Inr (PDict (sort_key fst old))"
    by auto
  with old show "parent_dir f' \<and> content f' = Yaml st' \<and>
      (\<exists>old new. py_getitem st ''projects'' = Inr (PDict old) \<and>
         py_getitem st' ''projects'' = Inr (PDict new) \<and>
         new = sort_key fst old \<and> sorted (map fst new) \<and> set new = set old \<and> length new = length old)"
    by simp
qed

lemma load_mapping_of_ledger:
  assumes "content f = Yaml st" and "py_getitem st ''projects'' = Inr v"
  shows "load_mapping f = (st, [])"
proof -
  from assms(2) obtain d where d: "st = PDict d" "map_of d ''projects'' = Some v"
    by (auto simp: getitem_dict)
  then have "d \<noteq> []" and "''projects'' \<in> fst ` set d"
    by (auto dest: map_of_SomeD intro: rev_image_eqI)
  with assms(1) d show ?thesis
    by (simp add: load_mapping_def load_mapping_try_def)
qed

text \<open>
  C4. Saving a ledger and loading the backing file again gives, without a warning, the
  saved document: the path keys are the same and every key has the same entry (the same
  list of environment sets and the same timestamp string) as before the save. The YAML
  library is taken to read back the value it wrote.
\<close>

theorem save_mapping_then_load_mapping:
  assumes "py_getitem st ''projects'' = Inr (PDict ps)" and "writable f"
  shows "\<exists>st' f' ps'. save_mapping st f = Inr (st', f') \<and>
           load_mapping f' = (st', []) \<and>
           py_getitem (fst (load_mapping f')) ''projects'' = Inr (PDict ps') \<and>
           set (map fst ps') = set (map fst ps) \<and>
           map_of ps' = map_of ps"
proof -
  from save_mapping_result[OF assms] obtain st' where
    s: "save_mapping st f = Inr (st', f\<lparr>parent_dir := True, content := Yaml st'\<rparr>)"
    and p: "py_getitem st' ''projects'' = Inr (PDict (sort_key fst ps))"
    by blast
  have l: "load_mapping (f\<lparr>parent_dir := True, content := Yaml st'\<rparr>) = (st', [])"
    by (rule load_mapping_of_ledger[OF _ p]) simp
  show ?thesis
    using s p l by (auto simp: map_of_sort_key)
qed


theorem save_mapping_sorted_witness:
  "py_getitem example_ledger ''projects'' = Inr (PDict example_projects) \<and> writable example_fs \<and>
   (\<exists>st' f'. save_mapping example_ledger example_fs = Inr (st', f') \<and>
      parent_dir f' \<and> content f' = Yaml st' \<and>
      py_getitem st' ''projects'' =
        Inr (PDict [example_projects ! 2, example_projects ! 1, example_projects ! 0]))"
proof -
  have h: "py_getitem example_ledger ''projects'' = Inr (PDict example_projects) \<and> writable example_fs"
    by (simp add: example_ledger_def example_fs_def)
  have srt: "sort_key fst example_projects =
               [example_projects ! 2, example_projects ! 1, example_projects ! 0]"
    by code_simp
  from h save_mapping_sorted[of example_ledger example_projects example_fs]
  obtain st' f' where s: "save_mapping example_ledger example_fs = Inr (st', f')"
    by blast
  with save_mapping_sorted[of example_ledger example_projects example_fs st' f'] h srt
  show ?thesis by auto
qed

theorem save_mapping_then_load_mapping_witness:
  "py_getitem example_ledger ''projects'' = Inr (PDict example_projects) \<and> writable example_fs \<and>
   (\<exists>st' f' ps'. save_mapping example_ledger example_fs = Inr (st', f') \<and>
           load_mapping f' = (st', []) \<and>
           py_getitem (fst (load_mapping f')) ''projects'' = Inr (PDict ps') \<and>
           set (map fst ps') = set (map fst example_projects) \<and>
           map_of ps' = map_of example_projects)"
proof -
  have h1: "py_getitem example_ledger ''projects'' = Inr (PDict example_projects)"
    by (simp add: example_ledger_def)
  have h2: "writable example_fs"
    by (simp add: example_fs_def)
  from save_mapping_then_load_mapping[OF h1 h2] h1 h2 show ?thesis by blast
qed

subsection \<open>Adding and looking up\<close>



subsection \<open>Cleanup\<close>








subsection \<open>Projects that need a sync\<close>









subsection \<open>Usage counts\<close>
















subsection \<open>Queries on a ledger with incomplete entries\<close>







end
